theory Spec2Isabelle
  imports Complex_Main "HOL-Library.Sublist"
begin

section \<open>JavaScript values\<close>

text \<open>
  The numbers that reach the Listing are amounts, limits and lengths. A number is a finite
  value, one of the two infinities (\<open>fetch_all\<close> passes \<open>Infinity\<close>) or \<open>NaN\<close>, which
  lodash's \<open>_.isNumber\<close> accepts as a number.
\<close>

datatype jsnum = NaN | NegInfinity | Finite real | Infinity

datatype jsval = JUndefined | JNull | JBool bool | JNum jsnum | JStr string

text \<open>A plain object: own properties by name. A missing property reads as \<open>undefined\<close>.\<close>

type_synonym props = "string \<rightharpoonup> jsval"

definition get :: "props \<Rightarrow> string \<Rightarrow> jsval" where
  "get obj k = (case obj k of None \<Rightarrow> JUndefined | Some v \<Rightarrow> v)"

text \<open>\<open>!x\<close> is \<open>\<not> truthy x\<close>.\<close>

fun truthy :: "jsval \<Rightarrow> bool" where
  "truthy JUndefined = False"
| "truthy JNull = False"
| "truthy (JBool b) = b"
| "truthy (JNum n) = (n \<noteq> NaN \<and> n \<noteq> Finite 0)"
| "truthy (JStr s) = (s \<noteq> [])"

fun isNumber :: "jsval \<Rightarrow> bool" where
  "isNumber (JNum n) = True"
| "isNumber v = False"

text \<open>\<open>x <= 0\<close> on numbers: every comparison with \<open>NaN\<close> is false.\<close>

fun js_le_zero :: "jsnum \<Rightarrow> bool" where
  "js_le_zero NaN = False"
| "js_le_zero NegInfinity = True"
| "js_le_zero (Finite r) = (r \<le> 0)"
| "js_le_zero Infinity = False"

text \<open>\<open>x + 1\<close> and \<open>x - n\<close> for the length \<open>n\<close> of an array.\<close>

fun js_plus_one :: "jsnum \<Rightarrow> jsnum" where
  "js_plus_one (Finite r) = Finite (r + 1)"
| "js_plus_one x = x"

fun js_minus_length :: "jsnum \<Rightarrow> nat \<Rightarrow> jsnum" where
  "js_minus_length (Finite r) n = Finite (r - real n)"
| "js_minus_length x n = x"

text \<open>
  \<open>_.defaults(obj, src)\<close>: every property of \<open>src\<close> that is missing or \<open>undefined\<close> in
  \<open>obj\<close> is taken from \<open>src\<close>.
\<close>

definition defaults :: "props \<Rightarrow> props \<Rightarrow> props" where
  "defaults obj src =
     (\<lambda>k. case src k of
            None \<Rightarrow> obj k
          | Some d \<Rightarrow> (case obj k of
                         None \<Rightarrow> Some d
                       | Some v \<Rightarrow> if v = JUndefined then Some d else Some v))"

text \<open>
  The amount of an options object, read as a number. \<open>fetch_more\<close> has checked it with
  \<open>_.isNumber\<close> before any arithmetic happens; \<open>undefined\<close> in arithmetic is \<open>NaN\<close>.
\<close>

definition amount_of :: "props \<Rightarrow> jsnum" where
  "amount_of options = (case get options ''amount'' of JNum n \<Rightarrow> n | _ \<Rightarrow> NaN)"

datatype error = InvalidMethodCallError string | TypeError string | RequestError string

definition no_amount :: error where
  "no_amount = InvalidMethodCallError ''Failed to fetch Listing. (No amount specified.)''"

section \<open>Objects and the store\<close>

type_synonym addr = nat

text \<open>
  Modelled from the spec: the class \<open>More\<close> (\<open>require('./more')\<close>) is not among the
  sources. The spec (3) gives a MoreNode its \<open>children\<close>, the ids that are still pending, in
  order; it is the one field that the Listing reads and cuts.
\<close>

record more_obj =
  children :: "string list"

text \<open>
  An array element is a content item or a reference to a \<open>More\<close> object;
  \<open>x instanceof More\<close> holds for the second kind.
\<close>

datatype 'a elem = Item 'a | MoreRef addr

text \<open>
  What a response carries before it is part of the store: content, or a \<open>More\<close> that the
  deserialiser has just built.
\<close>

datatype 'a raw = RawItem 'a | RawMore more_obj

text \<open>A response is array-like (\<open>length\<close>, elements) and has the two cursors.\<close>

record 'a response =
  r_items :: "'a raw list"
  r_before :: jsval
  r_after :: jsval

text \<open>
  The Listing object: the array part (\<open>items\<close>) and the properties named in
  \<open>INTERNAL_DEFAULTS\<close>; \<open>u_x\<close> stands for the source's \<open>_x\<close>. \<open>_ac\<close> is the
  environment below.
\<close>

record 'a listing =
  items :: "'a elem list"
  u_query :: props
  u_show :: string
  u_transform :: "'a response \<Rightarrow> error + 'a response"
  u_method :: string
  u_is_comment_list :: bool
  u_limit :: jsval
  u_link_id :: jsval
  u_uri :: jsval
  u_more :: "addr option"
  after :: jsval
  before :: jsval

text \<open>The \<open>options\<close> argument of the constructor; \<open>None\<close> is a property not given.\<close>

record 'a listing_options =
  o_children :: "'a elem list option"
  o_query :: "props option"
  o_show :: "string option"
  o_transform :: "('a response \<Rightarrow> error + 'a response) option"
  o_method :: "string option"
  o_is_comment_list :: "bool option"
  o_limit :: jsval
  o_link_id :: jsval
  o_uri :: jsval
  o_more :: "addr option"
  o_after :: jsval
  o_before :: jsval

text \<open>
  What one call to the outside is: a request through \<open>_ac\<close> (method, uri, query string), or
  \<open>fetch_more\<close> on a \<open>More\<close> object with an options object.
\<close>

datatype call = Request string jsval props | MoreFetch more_obj props

text \<open>
  The store: Listing objects and \<open>More\<close> objects by address, the next free address, the
  state of the remote side, and the calls made so far.
\<close>

record ('a, 'w) state =
  listings :: "addr \<Rightarrow> 'a listing"
  mores :: "addr \<Rightarrow> more_obj"
  next_addr :: addr
  world :: 'w
  calls :: "call list"

text \<open>
  Modelled from the spec: \<open>More.fetch_more\<close> is not among the sources. The spec (4.2) has it
  resolve a prefix of the pending ids into items through a bulk request, or reject; it reads
  the \<open>More\<close> object and the options and leaves the objects of the store as they are. It
  is the second field of the environment. The first, \<open>ac_request method uri qs\<close>, is
  \<open>_ac['_' + method]({uri, qs})\<close>, the transport, which is outside the repository.
\<close>

record ('a, 'w) env =
  ac_request :: "string \<Rightarrow> jsval \<Rightarrow> props \<Rightarrow> 'w \<Rightarrow> (error + 'a response) \<times> 'w"
  more_fetch_more :: "more_obj \<Rightarrow> props \<Rightarrow> 'w \<Rightarrow> (error + 'a raw list) \<times> 'w"

definition alloc_listing :: "'a listing \<Rightarrow> ('a, 'w) state \<Rightarrow> addr \<times> ('a, 'w) state" where
  "alloc_listing L s =
     (next_addr s, s\<lparr>listings := (listings s)(next_addr s := L), next_addr := Suc (next_addr s)\<rparr>)"

definition alloc_more :: "more_obj \<Rightarrow> ('a, 'w) state \<Rightarrow> addr \<times> ('a, 'w) state" where
  "alloc_more m s =
     (next_addr s, s\<lparr>mores := (mores s)(next_addr s := m), next_addr := Suc (next_addr s)\<rparr>)"

text \<open>
  Modelled from the spec: \<open>More._clone\<close> is not among the sources. The spec (3, 5) has
  cloning isolate the copy from the original: a new \<open>More\<close> object with its own copy of
  \<open>children\<close>.
\<close>

definition more_clone :: "addr \<Rightarrow> ('a, 'w) state \<Rightarrow> addr \<times> ('a, 'w) state" where
  "more_clone m s = alloc_more (mores s m) s"

text \<open>\<open>_.toArray(response)\<close>: the elements, the new \<open>More\<close> objects now in the store.\<close>

fun toArray :: "'a raw list \<Rightarrow> ('a, 'w) state \<Rightarrow> 'a elem list \<times> ('a, 'w) state" where
  "toArray [] s = ([], s)"
| "toArray (RawItem x # rs) s = (let (es, s') = toArray rs s in (Item x # es, s'))"
| "toArray (RawMore m # rs) s =
     (let (a, s1) = alloc_more m s; (es, s') = toArray rs s1 in (MoreRef a # es, s'))"

section \<open>The Listing\<close>

text \<open>\<open>_.last(options.children) instanceof More\<close>, with the object found.\<close>

definition last_more :: "'a elem list \<Rightarrow> addr option" where
  "last_more xs = (if xs = [] then None else (case last xs of MoreRef m \<Rightarrow> Some m | Item x \<Rightarrow> None))"

definition dflt :: "'b option \<Rightarrow> 'b \<Rightarrow> 'b" where
  "dflt v d = (case v of None \<Rightarrow> d | Some x \<Rightarrow> x)"

text \<open>The constructor, as the object it builds.\<close>

definition construct :: "'a listing_options \<Rightarrow> 'a listing" where
  "construct options =
     (let this = \<lparr>items = dflt (o_children options) [],
                  u_query = dflt (o_query options) Map.empty,
                  u_show = dflt (o_show options) ''all'',
                  u_transform = dflt (o_transform options) Inr,
                  u_method = dflt (o_method options) ''get'',
                  u_is_comment_list = dflt (o_is_comment_list options) False,
                  u_limit = o_limit options,
                  u_link_id = o_link_id options,
                  u_uri = o_uri options,
                  u_more = o_more options,
                  after = o_after options,
                  before = o_before options\<rparr>
      in case last_more (dflt (o_children options) []) of
           Some m \<Rightarrow> this\<lparr>items := butlast (items this), u_more := Some m, u_is_comment_list := True\<rparr>
         | None \<Rightarrow> this)"

definition Listing :: "'a listing_options \<Rightarrow> ('a, 'w) state \<Rightarrow> addr \<times> ('a, 'w) state" where
  "Listing options s = alloc_listing (construct options) s"

definition is_finished :: "('a, 'w) state \<Rightarrow> addr \<Rightarrow> bool" where
  "is_finished s this =
     (case u_more (listings s this) of
        Some m \<Rightarrow> children (mores s m) = []
      | None \<Rightarrow> \<not> truthy (u_uri (listings s this))
                \<or> (after (listings s this) = JNull \<and> before (listings s this) = JNull))"

text \<open>
  The \<open>properties\<close> object of \<open>_clone\<close>: the picked properties, \<open>_more\<close> replaced by
  its clone, and \<open>children\<close>.
\<close>

definition properties_of :: "'a listing \<Rightarrow> addr option \<Rightarrow> 'a listing_options" where
  "properties_of L m' =
     \<lparr>o_children = Some (items L),
      o_query = Some (u_query L),
      o_show = Some (u_show L),
      o_transform = Some (u_transform L),
      o_method = Some (u_method L),
      o_is_comment_list = Some (u_is_comment_list L),
      o_limit = u_limit L,
      o_link_id = u_link_id L,
      o_uri = u_uri L,
      o_more = m',
      o_after = after L,
      o_before = before L\<rparr>"

definition clone :: "addr \<Rightarrow> ('a, 'w) state \<Rightarrow> addr \<times> ('a, 'w) state" where
  "clone this s =
     (let L = listings s this;
          (m', s1) = (case u_more L of
                        None \<Rightarrow> (None, s)
                      | Some m \<Rightarrow> (let (c, s') = more_clone m s in (Some c, s')))
      in Listing (properties_of L m') s1)"

text \<open>\<open>cloned.push(...xs)\<close>.\<close>

definition push :: "addr \<Rightarrow> 'a elem list \<Rightarrow> ('a, 'w) state \<Rightarrow> ('a, 'w) state" where
  "push a xs s = s\<lparr>listings := (listings s)(a := (listings s a)\<lparr>items := items (listings s a) @ xs\<rparr>)\<rparr>"

text \<open>
  How a call ends: it throws before a promise exists, or its promise is rejected, or the
  promise resolves with a Listing.
\<close>

datatype outcome = Throws error | Rejected error | Resolved addr

text \<open>
  \<open>_fetch_more_comments\<close>. The clone is made first; \<open>splice(0, d)\<close> removes the first \<open>d\<close>
  elements, none when \<open>d\<close> is negative.
\<close>

definition fetch_more_comments ::
    "('a, 'w) env \<Rightarrow> addr \<Rightarrow> props \<Rightarrow> ('a, 'w) state \<Rightarrow> outcome \<times> ('a, 'w) state" where
  "fetch_more_comments env this args s =
     (let (cloned, s1) = clone this s in
      case u_more (listings s1 this) of
        None \<Rightarrow> (Resolved cloned, s1)
      | Some m \<Rightarrow>
          (let (res, w) = more_fetch_more env (mores s1 m) args (world s1);
               s2 = s1\<lparr>world := w, calls := calls s1 @ [MoreFetch (mores s1 m) args]\<rparr>
           in case res of
                Inl e \<Rightarrow> (Rejected e, s2)
              | Inr more_comments \<Rightarrow>
                  (let (xs, s3) = toArray more_comments s2;
                       s4 = push cloned xs s3
                   in case u_more (listings s4 cloned) of
                        None \<Rightarrow> (Rejected (TypeError ''children of undefined''), s4)
                      | Some cm \<Rightarrow>
                          (Resolved cloned,
                           s4\<lparr>mores := (mores s4)
                                 (cm := (mores s4 cm)
                                    \<lparr>children :=
                                       drop (length (items (listings s4 cloned))
                                               - length (items (listings s4 this)))
                                            (children (mores s4 cm))\<rparr>)\<rparr>))))"

text \<open>
  The callback that \<open>_fetch_more_regular\<close> gives to \<open>then\<close>, up to its last line: the
  clone, the response pushed onto it, and its two cursors set.
\<close>

definition on_response :: "addr \<Rightarrow> 'a response \<Rightarrow> ('a, 'w) state \<Rightarrow> addr \<times> ('a, 'w) state" where
  "on_response this response s1 =
     (let (cloned, s2) = clone this s1;
          (xs, s3) = toArray (r_items response) s2;
          s4 = push cloned xs s3;
          s5 = s4\<lparr>listings := (listings s4)
                  (cloned := (listings s4 cloned)\<lparr>before := r_before response\<rparr>)\<rparr>;
          s6 = s5\<lparr>listings := (listings s5)
                  (cloned := (listings s5 cloned)\<lparr>after := r_after response\<rparr>)\<rparr>
      in (cloned, s6))"

text \<open>
  \<open>fetch_more\<close> and \<open>_fetch_more_regular\<close> call each other for as long as the remote side
  has pages. The first argument bounds the number of pages one call may request; \<open>None\<close> is
  a call that has not come back within the bound. The argument of \<open>fetch_more\<close> is a bare
  value or an options object. A \<open>throw\<close> inside the callback rejects the promise.
\<close>

datatype arg = Val jsval | Obj props

fun fetch_more ::
    "nat \<Rightarrow> ('a, 'w) env \<Rightarrow> addr \<Rightarrow> arg \<Rightarrow> ('a, 'w) state \<Rightarrow> (outcome \<times> ('a, 'w) state) option"
and fetch_more_regular ::
    "nat \<Rightarrow> ('a, 'w) env \<Rightarrow> addr \<Rightarrow> props \<Rightarrow> ('a, 'w) state \<Rightarrow> (outcome \<times> ('a, 'w) state) option"
where
  "fetch_more n env this options s =
     (let parsed_options =
            defaults (case options of Obj p \<Rightarrow> p | Val v \<Rightarrow> [''amount'' \<mapsto> v])
                     [''skip_replies'' \<mapsto> JBool False]
      in if \<not> isNumber (get parsed_options ''amount'')
         then Some (Throws no_amount, s)
         else if js_le_zero (amount_of parsed_options) \<or> is_finished s this
         then Some (let (c, s') = clone this s in (Resolved c, s'))
         else if u_more (listings s this) \<noteq> None
         then Some (fetch_more_comments env this parsed_options s)
         else fetch_more_regular n env this parsed_options s)"
| "fetch_more_regular 0 env this options s = None"
| "fetch_more_regular (Suc n) env this options s =
     (let L = listings s this;
          limit = (if u_is_comment_list L then js_plus_one (amount_of options) else amount_of options);
          qs = defaults [''after'' \<mapsto> after L, ''before'' \<mapsto> before L,
                         ''limit'' \<mapsto> JNum limit, ''show'' \<mapsto> JStr (u_show L)]
                        (u_query L);
          (res, w) = ac_request env (u_method L) (u_uri L) qs (world s);
          s1 = s\<lparr>world := w, calls := calls s @ [Request (u_method L) (u_uri L) qs]\<rparr>
      in case res of
           Inl e \<Rightarrow> Some (Rejected e, s1)
         | Inr page \<Rightarrow>
             (case u_transform L page of
                Inl e \<Rightarrow> Some (Rejected e, s1)
              | Inr response \<Rightarrow>
                  (let (cloned, s6) = on_response this response s1
                   in case fetch_more n env cloned
                             (Obj (options(''amount'' \<mapsto>
                                JNum (js_minus_length (amount_of options) (length (r_items response))))))
                             s6 of
                        Some (Throws e, s7) \<Rightarrow> Some (Rejected e, s7)
                      | r \<Rightarrow> r)))"

text \<open>\<open>fetch_all\<close>: \<open>{...options, amount: Infinity}\<close>; spreading a non-object gives no property.\<close>

definition fetch_all ::
    "nat \<Rightarrow> ('a, 'w) env \<Rightarrow> addr \<Rightarrow> arg \<Rightarrow> ('a, 'w) state \<Rightarrow> (outcome \<times> ('a, 'w) state) option" where
  "fetch_all n env this options s =
     fetch_more n env this
       (Obj ((case options of Obj p \<Rightarrow> p | Val v \<Rightarrow> Map.empty)(''amount'' \<mapsto> JNum Infinity))) s"


section \<open>Vocabulary of the properties\<close>

text \<open>The amount that an argument of \<open>fetch_more\<close> carries.\<close>

definition arg_amount :: "arg \<Rightarrow> jsval" where
  "arg_amount options = (case options of Val v \<Rightarrow> v | Obj p \<Rightarrow> get p ''amount'')"

text \<open>What the constructor leaves of an array: all of it, or all but a \<open>More\<close> at its end.\<close>

definition without_last_more :: "'a elem list \<Rightarrow> 'a elem list" where
  "without_last_more xs = (case last_more xs of Some m \<Rightarrow> butlast xs | None \<Rightarrow> xs)"




text \<open>
  The condition for \<open>is_finished\<close> in the words of the spec (section 3): \<open>more\<close> exists and
  its children are empty, or the source URI is absent, or both cursors are \<open>null\<close>.
\<close>

definition is_finished_spec :: "('a, 'w) state \<Rightarrow> addr \<Rightarrow> bool" where
  "is_finished_spec s this =
     ((case u_more (listings s this) of Some m \<Rightarrow> children (mores s m) = [] | None \<Rightarrow> False)
      \<or> (\<not> truthy (u_uri (listings s this))
          \<or> (after (listings s this) = JNull \<and> before (listings s this) = JNull)))"

text \<open>
  A page of \<open>n\<close> elements is within a limit: the empty page always is, and \<open>NaN\<close> and
  \<open>Infinity\<close> bound nothing.
\<close>

fun fits :: "nat \<Rightarrow> jsnum \<Rightarrow> bool" where
  "fits n (Finite r) = (n = 0 \<or> real n \<le> r)"
| "fits n NegInfinity = (n = 0)"
| "fits n x = True"





text \<open>Pages that are never empty: every request brings at least one element.\<close>

definition nonempty_pages :: "('a, 'w) env \<Rightarrow> ('a response \<Rightarrow> error + 'a response) \<Rightarrow> bool" where
  "nonempty_pages env transform \<longleftrightarrow>
     (\<forall>method uri qs w page w' response.
        ac_request env method uri qs w = (Inr page, w') \<longrightarrow> transform page = Inr response \<longrightarrow>
        r_items response \<noteq> [])"




section \<open>Examples\<close>

text \<open>An options object with nothing given, and the store its Listings are put in.\<close>

definition no_options :: "nat listing_options" where
  "no_options =
     \<lparr>o_children = None, o_query = None, o_show = None, o_transform = None, o_method = None,
      o_is_comment_list = None, o_limit = JUndefined, o_link_id = JUndefined, o_uri = JUndefined,
      o_more = None, o_after = JUndefined, o_before = JUndefined\<rparr>"

text \<open>
  A store with the Listing \<open>L\<close> at address 0 and free addresses from 4 on; the \<open>More\<close>
  object at address 1 has one pending id, the others have three.
\<close>

definition store :: "nat listing \<Rightarrow> (nat, nat) state" where
  "store L =
     \<lparr>listings = (\<lambda>a. L),
      mores = (\<lambda>a. \<lparr>children = (if a = 1 then [''d1''] else [''c1'', ''c2'', ''c3''])\<rparr>),
      next_addr = 4, world = 0, calls = []\<rparr>"

text \<open>A remote side that answers nothing.\<close>

definition offline :: "(nat, nat) env" where
  "offline =
     \<lparr>ac_request = (\<lambda>method uri qs w. (Inl (RequestError ''offline''), w)),
      more_fetch_more = (\<lambda>m options w. (Inl (RequestError ''offline''), w))\<rparr>"

text \<open>A comment Listing with pending ids and no URI.\<close>

definition pending_comments :: "nat listing" where
  "pending_comments = construct (no_options\<lparr>o_children := Some [Item 1, MoreRef 2]\<rparr>)"

text \<open>A Listing of a subreddit, not yet continued.\<close>

definition fresh_posts :: "nat listing" where
  "fresh_posts = construct (no_options\<lparr>o_children := Some [Item 1, Item 2], o_uri := JStr ''r/all''\<rparr>)"

text \<open>Children with a \<open>More\<close> in their midst and one at their end.\<close>

definition two_mores :: "nat listing_options" where
  "two_mores = no_options\<lparr>o_children := Some [MoreRef 1, Item 1, MoreRef 2]\<rparr>"

text \<open>The same Listing after its last page: both cursors are \<open>null\<close>.\<close>

definition finished_posts :: "nat listing" where
  "finished_posts =
     construct (no_options\<lparr>o_children := Some [Item 1, Item 2], o_uri := JStr ''r/all'',
                           o_after := JNull, o_before := JNull\<rparr>)"

text \<open>A Listing built from children that end with two \<open>More\<close> objects.\<close>

definition trailing_more :: "nat listing" where
  "trailing_more = construct (no_options\<lparr>o_children := Some [Item 1, MoreRef 1, MoreRef 2]\<rparr>)"

text \<open>
  A remote side that answers every request with the same elements and \<open>null\<close> cursors, and
  with nothing when the limit or the amount is smaller than that.
\<close>

definition serving :: "nat raw list \<Rightarrow> (nat, nat) env" where
  "serving page =
     \<lparr>ac_request = (\<lambda>method uri qs w.
        (Inr \<lparr>r_items = (case get qs ''limit'' of
                           JNum l \<Rightarrow> if fits (length page) l then page else []
                         | _ \<Rightarrow> []),
              r_before = JNull, r_after = JNull\<rparr>, Suc w)),
      more_fetch_more = (\<lambda>m options w.
        (Inr (if fits (length page) (amount_of options) then page else []), Suc w))\<rparr>"

text \<open>A remote side that answers every request with the same elements, whatever the limit.\<close>

definition unlimited :: "nat raw list \<Rightarrow> (nat, nat) env" where
  "unlimited page =
     \<lparr>ac_request = (\<lambda>method uri qs w.
        (Inr \<lparr>r_items = page, r_before = JNull, r_after = JNull\<rparr>, Suc w)),
      more_fetch_more = (\<lambda>m options w. (Inr page, Suc w))\<rparr>"

text \<open>A comment list that is continued by requests: it has a URI and no \<open>more\<close> node.\<close>

definition fresh_comments :: "nat listing" where
  "fresh_comments =
     construct (no_options\<lparr>o_children := Some [Item 1], o_uri := JStr ''user/x/comments'',
                           o_is_comment_list := Some True\<rparr>)"

text \<open>A Listing built from children that name the same \<open>More\<close> object twice.\<close>

definition self_more :: "nat listing" where
  "self_more = construct (no_options\<lparr>o_children := Some [MoreRef 2, MoreRef 2]\<rparr>)"

section \<open>Objects, clones and responses\<close>

declare fetch_more.simps [simp del] fetch_more_regular.simps [simp del]

lemmas example_defs =
  store_def no_options_def construct_def dflt_def last_more_def offline_def
  pending_comments_def fresh_posts_def finished_posts_def trailing_more_def two_mores_def
  serving_def unlimited_def fresh_comments_def self_more_def


lemma get_defaults_other: "src k = None \<Longrightarrow> get (defaults obj src) k = get obj k"
  by (simp add: get_def defaults_def)

lemma parsed_amount:
  "get (defaults (case options of Obj p \<Rightarrow> p | Val v \<Rightarrow> [''amount'' \<mapsto> v]) [''skip_replies'' \<mapsto> d]) ''amount''
     = arg_amount options"
  by (cases options) (simp_all add: get_defaults_other arg_amount_def, simp add: get_def)

lemma construct_properties_of:
  "construct (properties_of L m') =
     (case last_more (items L) of
        Some p \<Rightarrow> L\<lparr>items := butlast (items L), u_more := Some p, u_is_comment_list := True\<rparr>
      | None \<Rightarrow> L\<lparr>u_more := m'\<rparr>)"
  by (cases L) (simp add: construct_def properties_of_def dflt_def split: option.splits)

lemma clone_eq:
  "clone this s =
     (case u_more (listings s this) of
        None \<Rightarrow> (next_addr s,
                  s\<lparr>listings := (listings s)(next_addr s := construct (properties_of (listings s this) None)),
                    next_addr := Suc (next_addr s)\<rparr>)
      | Some m \<Rightarrow> (Suc (next_addr s),
                    s\<lparr>mores := (mores s)(next_addr s := mores s m),
                      listings := (listings s)(Suc (next_addr s) :=
                         construct (properties_of (listings s this) (Some (next_addr s)))),
                      next_addr := Suc (Suc (next_addr s))\<rparr>))"
  by (simp add: clone_def more_clone_def alloc_more_def Listing_def alloc_listing_def split: option.splits)

lemma fetch_more_no_op:
  assumes "arg_amount options = JNum amount" and "js_le_zero amount \<or> is_finished s this"
  shows "fetch_more n env this options s = Some (Resolved (fst (clone this s)), snd (clone this s))"
  using assms
  by (simp add: fetch_more.simps parsed_amount Let_def amount_of_def split_def)

lemma toArray_facts:
  "toArray rs s = (xs, s') \<Longrightarrow>
     listings s' = listings s \<and> world s' = world s \<and> calls s' = calls s
     \<and> next_addr s \<le> next_addr s' \<and> length xs = length rs
     \<and> (\<forall>a. a < next_addr s \<longrightarrow> mores s' a = mores s a)
     \<and> (\<forall>a. MoreRef a \<in> set xs \<longrightarrow> next_addr s \<le> a \<and> a < next_addr s')
     \<and> ((\<forall>m. RawMore m \<notin> set rs) \<longrightarrow> (\<forall>a. MoreRef a \<notin> set xs))"
proof (induction rs arbitrary: s xs s')
  case Nil
  then show ?case by simp
next
  case (Cons r rs)
  show ?case
  proof (cases r)
    case (RawItem x)
    obtain es t where t: "toArray rs s = (es, t)" by force
    from Cons.prems RawItem t have "xs = Item x # es" "s' = t" by auto
    with Cons.IH[OF t] RawItem show ?thesis by auto
  next
    case (RawMore m)
    obtain a s1 where a: "alloc_more m s = (a, s1)" by force
    obtain es t where t: "toArray rs s1 = (es, t)" by force
    from Cons.prems RawMore a t have eq: "xs = MoreRef a # es" "s' = t" by auto
    from a have s1: "a = next_addr s" "next_addr s1 = Suc (next_addr s)" "listings s1 = listings s"
      "world s1 = world s" "calls s1 = calls s" "\<And>b. b < next_addr s \<Longrightarrow> mores s1 b = mores s b"
      by (auto simp: alloc_more_def)
    with Cons.IH[OF t] eq RawMore show ?thesis by auto
  qed
qed

lemma construct_fields:
  "items (construct (properties_of L m')) = without_last_more (items L)"
  "u_more (construct (properties_of L m')) = (case last_more (items L) of Some p \<Rightarrow> Some p | None \<Rightarrow> m')"
  "u_is_comment_list (construct (properties_of L m')) = (u_is_comment_list L \<or> last_more (items L) \<noteq> None)"
  "u_transform (construct (properties_of L m')) = u_transform L"
  "u_uri (construct (properties_of L m')) = u_uri L"
  "after (construct (properties_of L m')) = after L"
  "before (construct (properties_of L m')) = before L"
  by (auto simp: construct_properties_of without_last_more_def split: option.splits)

lemma clone_fresh:
  "clone this s = (c, s') \<Longrightarrow> next_addr s \<le> c \<and> c < next_addr s' \<and> next_addr s \<le> next_addr s'"
  by (auto simp: clone_eq split: option.splits)

lemma clone_frame:
  "clone this s = (c, s') \<Longrightarrow> a < next_addr s \<Longrightarrow> listings s' a = listings s a \<and> mores s' a = mores s a"
  by (auto simp: clone_eq split: option.splits)

lemma clone_outside:
  "clone this s = (c, s') \<Longrightarrow> world s' = world s \<and> calls s' = calls s"
  by (auto simp: clone_eq split: option.splits)

lemma clone_object:
  "clone this s = (c, s') \<Longrightarrow>
     \<exists>m'. listings s' c = construct (properties_of (listings s this) m')
        \<and> (case u_more (listings s this) of
              None \<Rightarrow> m' = None
            | Some m \<Rightarrow> m' = Some (next_addr s) \<and> mores s' (next_addr s) = mores s m)"
  by (auto simp: clone_eq split: option.splits)

lemma on_response_facts:
  assumes "on_response this response s1 = (cloned, s6)"
  shows "next_addr s1 \<le> cloned \<and> cloned < next_addr s6 \<and> world s6 = world s1 \<and> calls s6 = calls s1
     \<and> (\<forall>a. a < next_addr s1 \<longrightarrow> listings s6 a = listings s1 a \<and> mores s6 a = mores s1 a)
     \<and> (\<exists>m' xs. listings s6 cloned =
            (construct (properties_of (listings s1 this) m'))
              \<lparr>items := without_last_more (items (listings s1 this)) @ xs,
               before := r_before response, after := r_after response\<rparr>
          \<and> length xs = length (r_items response)
          \<and> (\<forall>a. MoreRef a \<in> set xs \<longrightarrow> next_addr s1 \<le> a)
          \<and> ((\<forall>m. RawMore m \<notin> set (r_items response)) \<longrightarrow> (\<forall>a. MoreRef a \<notin> set xs))
          \<and> (case u_more (listings s1 this) of None \<Rightarrow> m' = None | Some m \<Rightarrow> m' = Some (next_addr s1)))"
proof -
  obtain c s2 where c: "clone this s1 = (c, s2)" by force
  obtain xs s3 where x: "toArray (r_items response) s2 = (xs, s3)" by force
  from assms c x have cl: "cloned = c"
    and s6: "s6 = s3\<lparr>listings := (listings s3)(c := (listings s3 c)
                \<lparr>items := items (listings s3 c) @ xs, before := r_before response, after := r_after response\<rparr>)\<rparr>"
    by (auto simp: on_response_def push_def)
  note f = clone_fresh[OF c] clone_outside[OF c] toArray_facts[OF x]
  from clone_object[OF c] obtain m' where m': "listings s2 c = construct (properties_of (listings s1 this) m')"
     "(case u_more (listings s1 this) of None \<Rightarrow> m' = None | Some m \<Rightarrow> m' = Some (next_addr s1))"
    by (auto split: option.splits)
  have frame: "\<forall>a. a < next_addr s1 \<longrightarrow> listings s6 a = listings s1 a \<and> mores s6 a = mores s1 a"
    using f clone_frame[OF c] by (auto simp: s6)
  have obj: "listings s6 cloned =
            (construct (properties_of (listings s1 this) m'))
              \<lparr>items := without_last_more (items (listings s1 this)) @ xs,
               before := r_before response, after := r_after response\<rparr>"
    using f m' by (simp add: s6 cl construct_fields)
  have refs: "\<forall>a. MoreRef a \<in> set xs \<longrightarrow> next_addr s1 \<le> a"
    using f by auto
  have plain: "(\<forall>m. RawMore m \<notin> set (r_items response)) \<longrightarrow> (\<forall>a. MoreRef a \<notin> set xs)"
    using f by blast
  have fresh: "next_addr s1 \<le> cloned \<and> cloned < next_addr s6 \<and> world s6 = world s1 \<and> calls s6 = calls s1"
    using f by (simp add: s6 cl)
  have len: "length xs = length (r_items response)"
    using f by simp
  from fresh frame obj len refs plain m'(2) show ?thesis
    by blast
qed

































text \<open>
  A call comes back when the remote side makes progress: with a finite amount \<open>a\<close> and pages
  that are never empty, \<open>a\<close> pages are enough.
\<close>

lemma fetch_more_comes_back:
  assumes "arg_amount options = JNum (Finite a)" and "a \<le> real n"
    and "nonempty_pages env (u_transform (listings s this))"
  shows "\<exists>out s'. fetch_more n env this options s = Some (out, s')"
  using assms
proof (induction n arbitrary: this options s a)
  case 0
  then have "js_le_zero (Finite a)" by simp
  with "0.prems"(1) fetch_more_no_op [of options "Finite a" s this 0 env] show ?case
    by simp
next
  case (Suc n)
  let ?L = "listings s this"
  let ?parsed = "defaults (case options of Obj p \<Rightarrow> p | Val v \<Rightarrow> [''amount'' \<mapsto> v])
                          [''skip_replies'' \<mapsto> JBool False]"
  have amt: "get ?parsed ''amount'' = JNum (Finite a)"
    using Suc.prems(1) by (simp add: parsed_amount)
  then have amt': "amount_of ?parsed = Finite a"
    by (simp add: amount_of_def)
  show ?case
  proof (cases "js_le_zero (Finite a) \<or> is_finished s this \<or> u_more ?L \<noteq> None")
    case True
    with amt amt' show ?thesis
      by (auto simp: fetch_more.simps Let_def split_def)
  next
    case False
    with amt amt' have run: "fetch_more (Suc n) env this options s = fetch_more_regular (Suc n) env this ?parsed s"
      by (simp add: fetch_more.simps Let_def)
    let ?limit = "if u_is_comment_list ?L then js_plus_one (amount_of ?parsed) else amount_of ?parsed"
    let ?qs = "defaults [''after'' \<mapsto> after ?L, ''before'' \<mapsto> before ?L,
                         ''limit'' \<mapsto> JNum ?limit, ''show'' \<mapsto> JStr (u_show ?L)] (u_query ?L)"
    obtain res w where res: "ac_request env (u_method ?L) (u_uri ?L) ?qs (world s) = (res, w)"
      by force
    define s1 where "s1 = s\<lparr>world := w, calls := calls s @ [Request (u_method ?L) (u_uri ?L) ?qs]\<rparr>"
    show ?thesis
    proof (cases res)
      case (Inl e)
      with res show ?thesis
        by (simp add: run fetch_more_regular.simps Let_def)
    next
      case (Inr page)
      show ?thesis
      proof (cases "u_transform ?L page")
        case (Inl e)
        with res Inr show ?thesis
          by (simp add: run fetch_more_regular.simps Let_def)
      next
        case response: (Inr response)
        let ?k = "length (r_items response)"
        obtain cloned s6 where on: "on_response this response s1 = (cloned, s6)"
          by force
        from Suc.prems(3) res Inr response have "r_items response \<noteq> []"
          unfolding nonempty_pages_def by blast
        then have "1 \<le> real ?k"
          by (cases "r_items response") simp_all
        with Suc.prems(2) have le: "a - real ?k \<le> real n"
          by simp
        have amount: "arg_amount (Obj (?parsed(''amount'' \<mapsto> JNum (js_minus_length (amount_of ?parsed) ?k))))
            = JNum (Finite (a - real ?k))"
          by (simp add: arg_amount_def get_def amt')
        from on_response_facts [OF on] have "u_transform (listings s6 cloned) = u_transform ?L"
          by (auto simp: s1_def construct_fields)
        with Suc.prems(3) have "nonempty_pages env (u_transform (listings s6 cloned))"
          by simp
        from Suc.IH [OF amount le this] obtain out6 s7 where
          "fetch_more n env cloned
             (Obj (?parsed(''amount'' \<mapsto> JNum (js_minus_length (amount_of ?parsed) ?k)))) s6 = Some (out6, s7)"
          by blast
        with res Inr response on show ?thesis
          by (cases out6) (simp_all add: run fetch_more_regular.simps Let_def s1_def)
      qed
    qed
  qed
qed

section \<open>The properties\<close>

text \<open>
  C1, as the code has it. \<open>is_finished\<close> holds if and only if the \<open>more\<close> node exists and
  its \<open>children\<close> are empty, or there is no \<open>more\<close> node and the source URI is absent
  (\<open>undefined\<close>, or empty) or both cursors are \<open>null\<close>. With a \<open>more\<close> node the URI and
  the cursors are not looked at.
\<close>

theorem is_finished_cases:
  "is_finished s this \<longleftrightarrow>
     (\<exists>m. u_more (listings s this) = Some m \<and> children (mores s m) = [])
     \<or> (u_more (listings s this) = None
         \<and> (\<not> truthy (u_uri (listings s this))
             \<or> (after (listings s this) = JNull \<and> before (listings s this) = JNull)))"
  by (auto simp: is_finished_def split: option.splits)

theorem is_finished_cases_witness:
  "u_more (listings (store pending_comments) 0) = Some 2
   \<and> children (mores (store pending_comments) 2) \<noteq> []
   \<and> \<not> is_finished (store pending_comments) 0
   \<and> u_more (listings (store finished_posts) 0) = None
   \<and> is_finished (store finished_posts) 0"
  using is_finished_cases [of "store pending_comments" 0] is_finished_cases [of "store finished_posts" 0]
  by (simp add: example_defs)

text \<open>
  C1 as the spec words it fails on a comment Listing with pending ids and no URI: the URI is
  absent, and the Listing is not finished.
\<close>

theorem is_finished_spec_counterexample:
  "truthy (u_uri (listings (store pending_comments) 0)) = False
   \<and> is_finished_spec (store pending_comments) 0
   \<and> \<not> is_finished (store pending_comments) 0"
  by (simp add: is_finished_spec_def is_finished_def example_defs)



text \<open>
  C10. Without a \<open>more\<close> node and with a URI, \<open>is_finished\<close> is exactly: both cursors are
  \<open>null\<close>. A cursor that is \<open>undefined\<close> keeps the Listing unfinished, so a Listing that the
  constructor builds with a URI, no cursors and no \<open>more\<close> node is not finished.
\<close>

theorem unset_cursor_is_not_null:
  "(u_more (listings s this) = None \<and> truthy (u_uri (listings s this)) \<longrightarrow>
      (is_finished s this \<longleftrightarrow> after (listings s this) = JNull \<and> before (listings s this) = JNull)
      \<and> (after (listings s this) = JUndefined \<or> before (listings s this) = JUndefined
           \<longrightarrow> \<not> is_finished s this))
   \<and> (Listing options s0 = (a, s1) \<and> truthy (o_uri options)
        \<and> o_after options = JUndefined \<and> o_before options = JUndefined
        \<and> u_more (listings s1 a) = None \<longrightarrow> \<not> is_finished s1 a)"
proof -
  have "\<not> is_finished s1 a"
    if "Listing options s0 = (a, s1)" "truthy (o_uri options)" "o_after options = JUndefined"
      "u_more (listings s1 a) = None"
  proof -
    from that(1) have "listings s1 a = construct options"
      by (auto simp: Listing_def alloc_listing_def)
    moreover have "u_uri (construct options) = o_uri options" "after (construct options) = o_after options"
      by (simp_all add: construct_def Let_def split: option.splits)
    ultimately show ?thesis
      using that by (simp add: is_finished_def)
  qed
  then show ?thesis
    by (auto simp: is_finished_def)
qed

theorem unset_cursor_is_not_null_witness:
  "u_more (listings (store fresh_posts) 0) = None \<and> truthy (u_uri (listings (store fresh_posts) 0))
   \<and> after (listings (store fresh_posts) 0) = JUndefined \<and> \<not> is_finished (store fresh_posts) 0
   \<and> is_finished (store finished_posts) 0
   \<and> Listing (no_options\<lparr>o_uri := JStr ''r/all''\<rparr>) (store fresh_posts)
        = (4, snd (Listing (no_options\<lparr>o_uri := JStr ''r/all''\<rparr>) (store fresh_posts)))
   \<and> \<not> is_finished (snd (Listing (no_options\<lparr>o_uri := JStr ''r/all''\<rparr>) (store fresh_posts))) 4"
  using unset_cursor_is_not_null [of "store fresh_posts" 0 "no_options\<lparr>o_uri := JStr ''r/all''\<rparr>"
      "store fresh_posts" 4 "snd (Listing (no_options\<lparr>o_uri := JStr ''r/all''\<rparr>) (store fresh_posts))"]
    unset_cursor_is_not_null [of "store finished_posts" 0 no_options "store fresh_posts" 4 "store fresh_posts"]
  by (simp add: example_defs Listing_def alloc_listing_def)

text \<open>
  C9, as the code has it. When the children end with a \<open>More\<close>, the constructor takes that
  last element out of the array, keeps it as \<open>_more\<close> and sets \<open>_is_comment_list\<close>. The
  array that remains is the children before it: it is free of \<open>More\<close> objects when they
  are.
\<close>

theorem constructor_takes_last_more:
  assumes "o_children options = Some (xs @ [MoreRef m])" and "Listing options s = (a, s')"
  shows "items (listings s' a) = xs \<and> u_more (listings s' a) = Some m
     \<and> u_is_comment_list (listings s' a)
     \<and> ((\<forall>b. MoreRef b \<notin> set xs) \<longrightarrow> (\<forall>b. MoreRef b \<notin> set (items (listings s' a))))"
proof -
  from assms(2) have "listings s' a = construct options"
    by (auto simp: Listing_def alloc_listing_def)
  moreover have "last_more (xs @ [MoreRef m]) = Some m"
    by (simp add: last_more_def)
  ultimately show ?thesis
    using assms(1) by (simp add: construct_def dflt_def)
qed

theorem constructor_takes_last_more_witness:
  "o_children (no_options\<lparr>o_children := Some [Item 1, MoreRef 1]\<rparr>) = Some ([Item 1] @ [MoreRef 1])
   \<and> Listing (no_options\<lparr>o_children := Some [Item 1, MoreRef 1]\<rparr>) (store fresh_posts)
        = (4, snd (Listing (no_options\<lparr>o_children := Some [Item 1, MoreRef 1]\<rparr>) (store fresh_posts)))
   \<and> items (listings (snd (Listing (no_options\<lparr>o_children := Some [Item 1, MoreRef 1]\<rparr>) (store fresh_posts))) 4)
        = [Item 1]
   \<and> u_more (listings (snd (Listing (no_options\<lparr>o_children := Some [Item 1, MoreRef 1]\<rparr>) (store fresh_posts))) 4)
        = Some 1"
  using constructor_takes_last_more [of "no_options\<lparr>o_children := Some [Item 1, MoreRef 1]\<rparr>" "[Item 1]" 1
      "store fresh_posts" 4 "snd (Listing (no_options\<lparr>o_children := Some [Item 1, MoreRef 1]\<rparr>) (store fresh_posts))"]
  by (simp add: Listing_def alloc_listing_def store_def no_options_def)

text \<open>
  C9 as stated fails: the constructor looks at the last element only, and a \<open>More\<close> before
  it stays in the array of the Listing.
\<close>

theorem constructor_keeps_inner_more_counterexample:
  "o_children two_mores = Some [MoreRef 1, Item 1, MoreRef 2]
   \<and> items (listings (snd (Listing two_mores (store fresh_posts))) (fst (Listing two_mores (store fresh_posts))))
        = [MoreRef 1, Item 1]
   \<and> u_more (listings (snd (Listing two_mores (store fresh_posts))) (fst (Listing two_mores (store fresh_posts))))
        = Some 2"
  by (simp add: Listing_def alloc_listing_def example_defs)


















end
